theory Spec2Isabelle
  imports Complex_Main "HOL-Library.Word"
begin

section \<open>The BMP loader of Util.hpp\<close>

text \<open>
  The second document of \<^verbatim>\<open>src/Util.hpp\<close> (BMPConverter.cpp) holds the class \<^verbatim>\<open>BMP\<close>
  with the methods \<^verbatim>\<open>Load\<close>, \<^verbatim>\<open>LoadColorPalleta\<close> and \<^verbatim>\<open>LoadRGBData\<close>. They are embedded
  here as functions over an explicit operating-system state (the descriptor table and the
  list of system calls made so far) and the object's members.

  Conventions of the embedding.
  \<^item> A \<^verbatim>\<open>uintN_t\<close> or \<^verbatim>\<open>intN_t\<close> is an \<open>N word\<close>; signed fields are read with \<open>sint\<close>.
  \<^item> \<^verbatim>\<open>int\<close>, \<^verbatim>\<open>ssize_t\<close> and \<^verbatim>\<open>off_t\<close> results of system calls are \<open>int\<close>
    (\<^verbatim>\<open>off_t\<close> is taken to be 64 bits wide, so every 32-bit offset fits).
  \<^item> The packed header is filled by one raw \<^verbatim>\<open>read\<close>; its fields are decoded from the 54
    bytes of its memory image in little-endian order (the byte order of the hosts the
    program is written for).
  \<^item> A run that does not return is a result of its own (type \<open>fault\<close>): a construct
    whose behaviour C++ leaves undefined, or an exception that nothing catches. It is
    neither a \<^verbatim>\<open>true\<close> nor a \<^verbatim>\<open>false\<close> return.
  \<^item> \<^verbatim>\<open>new[]\<close> takes its bytes from a heap of limited size and throws
    \<^verbatim>\<open>std::bad_alloc\<close> when the request does not fit.
  \<^item> Text written to \<^verbatim>\<open>std::cout\<close> is not modelled.
\<close>

type_synonym byte = "8 word"

subsection \<open>Files, descriptors and system calls\<close>

datatype node = Regular "byte list" | Directory

record open_file =
  of_node :: node
  of_pos :: nat

datatype syscall =
    SysOpen string
  | SysRead int nat
  | SysLseek int int
  | SysClose int

record world =
  fs :: "(string \<times> node) list"
  fd_table :: "open_file option list"
  trace :: "syscall list"
  heap_free :: nat

fun lowest_free :: "open_file option list \<Rightarrow> nat" where
  "lowest_free [] = 0"
| "lowest_free (None # t) = 0"
| "lowest_free (Some f # t) = Suc (lowest_free t)"

definition install :: "open_file option list \<Rightarrow> nat \<Rightarrow> open_file \<Rightarrow> open_file option list" where
  "install t fd f = (if fd < length t then t[fd := Some f] else t @ [Some f])"

definition fd_lookup :: "open_file option list \<Rightarrow> int \<Rightarrow> open_file option" where
  "fd_lookup t fd = (if 0 \<le> fd \<and> nat fd < length t then t ! nat fd else None)"

text \<open>\<^verbatim>\<open>open (path, O_RDONLY)\<close>: the lowest free descriptor, or \<open>-1\<close>.\<close>

definition sys_open :: "world \<Rightarrow> string \<Rightarrow> int \<times> world" where
  "sys_open w path =
     (case map_of (fs w) path of
        None \<Rightarrow> (- 1, w\<lparr>trace := trace w @ [SysOpen path]\<rparr>)
      | Some n \<Rightarrow>
          (int (lowest_free (fd_table w)),
           w\<lparr>fd_table := install (fd_table w) (lowest_free (fd_table w))
                            \<lparr>of_node = n, of_pos = 0\<rparr>,
              trace := trace w @ [SysOpen path]\<rparr>))"

text \<open>
  \<^verbatim>\<open>read (fd, buf, n)\<close>: the result, the bytes stored at \<^verbatim>\<open>buf\<close>, and the new state.
  A read at or past the end of a regular file returns 0; a directory cannot be read.
\<close>

definition sys_read :: "world \<Rightarrow> int \<Rightarrow> nat \<Rightarrow> int \<times> byte list \<times> world" where
  "sys_read w fd n =
     (case fd_lookup (fd_table w) fd of
        None \<Rightarrow> (- 1, [], w\<lparr>trace := trace w @ [SysRead fd n]\<rparr>)
      | Some f \<Rightarrow>
          (case of_node f of
             Directory \<Rightarrow> (- 1, [], w\<lparr>trace := trace w @ [SysRead fd n]\<rparr>)
           | Regular bs \<Rightarrow>
               (int (length (take n (drop (of_pos f) bs))),
                take n (drop (of_pos f) bs),
                w\<lparr>fd_table := (fd_table w)
                      [nat fd := Some (f\<lparr>of_pos := of_pos f + length (take n (drop (of_pos f) bs))\<rparr>)],
                   trace := trace w @ [SysRead fd n]\<rparr>)))"

text \<open>\<^verbatim>\<open>lseek (fd, off, SEEK_SET)\<close>: the new offset, or \<open>-1\<close>.\<close>

definition sys_lseek :: "world \<Rightarrow> int \<Rightarrow> int \<Rightarrow> int \<times> world" where
  "sys_lseek w fd off =
     (case fd_lookup (fd_table w) fd of
        None \<Rightarrow> (- 1, w\<lparr>trace := trace w @ [SysLseek fd off]\<rparr>)
      | Some f \<Rightarrow>
          (if off < 0 then (- 1, w\<lparr>trace := trace w @ [SysLseek fd off]\<rparr>)
           else (off,
                 w\<lparr>fd_table := (fd_table w)[nat fd := Some (f\<lparr>of_pos := nat off\<rparr>)],
                    trace := trace w @ [SysLseek fd off]\<rparr>)))"

definition sys_close :: "world \<Rightarrow> int \<Rightarrow> int \<times> world" where
  "sys_close w fd =
     (case fd_lookup (fd_table w) fd of
        None \<Rightarrow> (- 1, w\<lparr>trace := trace w @ [SysClose fd]\<rparr>)
      | Some f \<Rightarrow>
          (0, w\<lparr>fd_table := (fd_table w)[nat fd := None],
                trace := trace w @ [SysClose fd]\<rparr>))"

subsection \<open>The object's members\<close>

record BMPHeader =
  signature :: "16 word"
  nBitmapByteSize :: "32 word"
  nReserved :: "32 word"
  nDataOffSet :: "32 word"
  nBIDHeaderSize :: "32 word"
  nWidth :: "32 word"
  nHeight :: "32 word"
  nColorPanes :: "16 word"
  nBitPerPixel :: "16 word"
  nCompressionMethod :: "32 word"
  nRawBitmapSize :: "32 word"
  nWidthPixPerMeter :: "32 word"
  nHeightPixPerMeter :: "32 word"
  nColorsInPalleta :: "32 word"
  nImportantColors :: "32 word"

text \<open>
  \<^verbatim>\<open>struct RGB\<close>. A channel is \<open>None\<close> while the program has not written it: \<^verbatim>\<open>new RGB[n]\<close>
  leaves the array's bytes indeterminate.
\<close>

record RGB =
  nRed :: "byte option"
  nGreen :: "byte option"
  nBlue :: "byte option"
  nAlpha :: "byte option"

record BMP =
  m_bmpHeader :: BMPHeader
  m_nFD :: int
  m_pRGBData :: "RGB list option"
  m_pRGBPalleta :: "RGB list option"

datatype fault = DivideByZero | SignedOverflow | FloatCastOutOfRange | BufferOverrun | BadAlloc

definition BMP_SIGNATURE :: "16 word" where
  "BMP_SIGNATURE = 19778"

definition BMP_BI_RGB :: "32 word" where
  "BMP_BI_RGB = 0"

text \<open>\<^verbatim>\<open>BMP_BITMAPINFOHEADER\<close> is defined by the source and used nowhere in it.\<close>

definition BMP_BITMAPINFOHEADER :: "32 word" where
  "BMP_BITMAPINFOHEADER = 40"

definition BMP_HEADERSIZE :: "32 word" where
  "BMP_HEADERSIZE = 14"

subsection \<open>The header's memory image\<close>

fun le_nat :: "byte list \<Rightarrow> nat" where
  "le_nat [] = 0"
| "le_nat (x # xs) = unat x + 256 * le_nat xs"

definition field16 :: "byte list \<Rightarrow> nat \<Rightarrow> 16 word" where
  "field16 m off = of_nat (le_nat (take 2 (drop off m)))"

definition field32 :: "byte list \<Rightarrow> nat \<Rightarrow> 32 word" where
  "field32 m off = of_nat (le_nat (take 4 (drop off m)))"

text \<open>The packed \<^verbatim>\<open>struct BMPHeader\<close> (54 bytes), read from its memory image.\<close>

definition header_of_bytes :: "byte list \<Rightarrow> BMPHeader" where
  "header_of_bytes m =
     \<lparr>signature = field16 m 0,
      nBitmapByteSize = field32 m 2,
      nReserved = field32 m 6,
      nDataOffSet = field32 m 10,
      nBIDHeaderSize = field32 m 14,
      nWidth = field32 m 18,
      nHeight = field32 m 22,
      nColorPanes = field16 m 26,
      nBitPerPixel = field16 m 28,
      nCompressionMethod = field32 m 30,
      nRawBitmapSize = field32 m 34,
      nWidthPixPerMeter = field32 m 38,
      nHeightPixPerMeter = field32 m 42,
      nColorsInPalleta = field32 m 46,
      nImportantColors = field32 m 50\<rparr>"

text \<open>
  A raw \<^verbatim>\<open>read\<close> into an object overwrites its first bytes and leaves the rest as it was.
\<close>

definition store_bytes :: "byte list \<Rightarrow> byte list \<Rightarrow> byte list" where
  "store_bytes mem got = got @ drop (length got) mem"

fun store_RGB :: "RGB \<Rightarrow> byte list \<Rightarrow> RGB" where
  "store_RGB c [] = c"
| "store_RGB c [r] = c\<lparr>nRed := Some r\<rparr>"
| "store_RGB c [r, g] = c\<lparr>nRed := Some r, nGreen := Some g\<rparr>"
| "store_RGB c [r, g, bl] = c\<lparr>nRed := Some r, nGreen := Some g, nBlue := Some bl\<rparr>"
| "store_RGB c (r # g # bl # a # rest) =
     c\<lparr>nRed := Some r, nGreen := Some g, nBlue := Some bl, nAlpha := Some a\<rparr>"

definition fresh_RGB :: RGB where
  "fresh_RGB = \<lparr>nRed = None, nGreen = None, nBlue = None, nAlpha = None\<rparr>"

text \<open>The constructor \<^verbatim>\<open>BMP ()\<close>: a zeroed header, descriptor 0, both pointers null.\<close>

definition BMP_new :: BMP where
  "BMP_new =
     \<lparr>m_bmpHeader = header_of_bytes (replicate 54 0),
      m_nFD = 0,
      m_pRGBData = None,
      m_pRGBPalleta = None\<rparr>"

subsection \<open>LoadColorPalleta\<close>

text \<open>
  The \<^verbatim>\<open>for\<close> loop of \<^verbatim>\<open>LoadColorPalleta\<close>. A loop's value is \<open>Some r\<close> when its body made
  the method return \<open>r\<close>, and \<open>None\<close> when the loop ran to its end. The counter is an
  \<^verbatim>\<open>int\<close>: incrementing it past \<open>2^31 - 1\<close> is undefined.
\<close>

function palleta_loop :: "nat \<Rightarrow> world \<Rightarrow> BMP \<Rightarrow> (fault + bool) option \<times> world \<times> BMP" where
  "palleta_loop nCount w b =
     (if nCount < unat (nColorsInPalleta (m_bmpHeader b)) then
        (case sys_read w (m_nFD b) 4 of
           (n, got, w1) \<Rightarrow>
             if \<not> n > 0 then (Some (Inr False), w1, b)
             else if nCount = 2 ^ 31 - 1
             then (Some (Inl SignedOverflow), w1,
                   b\<lparr>m_pRGBPalleta :=
                        map_option (\<lambda>p. p[nCount := store_RGB (p ! nCount) got])
                          (m_pRGBPalleta b)\<rparr>)
             else palleta_loop (Suc nCount) w1
                   (b\<lparr>m_pRGBPalleta :=
                        map_option (\<lambda>p. p[nCount := store_RGB (p ! nCount) got])
                          (m_pRGBPalleta b)\<rparr>))
      else (None, w, b))"
  by pat_completeness auto
termination
  by (relation "measure (\<lambda>(nCount, w, b). unat (nColorsInPalleta (m_bmpHeader b)) - nCount)") auto

text \<open>
  The bytes of the palette array the object holds (\<^verbatim>\<open>sizeof (RGB)\<close> is 4): \<^verbatim>\<open>delete[]\<close>
  gives them back to the heap.
\<close>

definition palette_bytes :: "BMP \<Rightarrow> nat" where
  "palette_bytes b = (case m_pRGBPalleta b of None \<Rightarrow> 0 | Some p \<Rightarrow> 4 * length p)"

text \<open>
  \<^verbatim>\<open>LoadColorPalleta\<close>. After the seek the old array is deleted and
  \<^verbatim>\<open>new RGB[nColorsInPalleta]\<close> is taken from the heap; when it does not fit, \<^verbatim>\<open>new\<close>
  throws \<^verbatim>\<open>std::bad_alloc\<close>, which neither the method nor \<^verbatim>\<open>Load\<close> nor \<^verbatim>\<open>main\<close> catches.
\<close>

definition LoadColorPalleta :: "world \<Rightarrow> BMP \<Rightarrow> (fault + bool) \<times> world \<times> BMP" where
  "LoadColorPalleta w b =
     (if \<not> signature (m_bmpHeader b) = BMP_SIGNATURE then (Inr False, w, b)
      else if nColorsInPalleta (m_bmpHeader b) > 0 then
        (case sys_lseek w (m_nFD b) (sint (BMP_HEADERSIZE + nBIDHeaderSize (m_bmpHeader b))) of
           (r, w1) \<Rightarrow>
             if \<not> r > 0 then (Inr False, w1, b)
             else if heap_free w1 + palette_bytes b < 4 * unat (nColorsInPalleta (m_bmpHeader b))
             then (Inl BadAlloc, w1\<lparr>heap_free := heap_free w1 + palette_bytes b\<rparr>, b)
             else
               (case palleta_loop 0
                       (w1\<lparr>heap_free := heap_free w1 + palette_bytes b
                                      - 4 * unat (nColorsInPalleta (m_bmpHeader b))\<rparr>)
                       (b\<lparr>m_pRGBPalleta :=
                            Some (replicate (unat (nColorsInPalleta (m_bmpHeader b))) fresh_RGB)\<rparr>) of
                  (Some res, w2, b2) \<Rightarrow> (res, w2, b2)
                | (None, w2, b2) \<Rightarrow> (Inr True, w2, b2)))
      else (Inr True, w, b))"

subsection \<open>LoadRGBData\<close>

text \<open>
  The \<^verbatim>\<open>double\<close> values of \<^verbatim>\<open>LoadRGBData\<close> are \<open>nBitPerPixel / 8\<close> and its product with
  \<open>nWidth\<close>: multiples of \<open>1/8\<close> below \<open>2^47\<close> in magnitude. Each of them is a \<^verbatim>\<open>double\<close>
  exactly, so the floating-point operations on them round nothing and are the
  operations on rationals. A conversion from \<^verbatim>\<open>double\<close> to an unsigned integer type
  truncates towards zero and is undefined when the truncated value is out of the
  type's range.
\<close>

definition trunc_rat :: "rat \<Rightarrow> int" where
  "trunc_rat x = (if x < 0 then - \<lfloor>- x\<rfloor> else \<lfloor>x\<rfloor>)"

definition RoundUp :: "rat \<Rightarrow> fault + rat" where
  "RoundUp nValue =
     (if trunc_rat nValue < 0 \<or> 2 ^ 64 \<le> trunc_rat nValue then Inl FloatCastOutOfRange
      else if nValue = of_int (trunc_rat nValue) then Inr (of_int (trunc_rat nValue))
      else Inr (of_int (trunc_rat nValue + 1)))"

record geometry =
  nBytesPerPixel :: "8 word"
  nBytesPerRow :: "32 word"
  nPaddingSize :: "8 word"
  nRowDataSize :: "32 word"

text \<open>The local variables that \<^verbatim>\<open>LoadRGBData\<close> computes from the header before its loops.\<close>

definition LoadRGBData_geometry :: "BMPHeader \<Rightarrow> fault + geometry" where
  "LoadRGBData_geometry h =
     (let nBytesPerPixelFactor = (of_nat (unat (nBitPerPixel h)) :: rat) / 8 in
      if 256 \<le> trunc_rat (if nBytesPerPixelFactor < 1 then 1 else nBytesPerPixelFactor)
      then Inl FloatCastOutOfRange
      else
        (case RoundUp (of_int (sint (nWidth h)) * nBytesPerPixelFactor) of
           Inl f \<Rightarrow> Inl f
         | Inr r \<Rightarrow>
             if 2 ^ 32 \<le> trunc_rat r then Inl FloatCastOutOfRange
             else
               (let bpr = (of_int (trunc_rat r) :: 32 word);
                    pad = (ucast (if bpr mod 4 > 0 then 4 - bpr mod 4 else 0) :: 8 word)
                in Inr \<lparr>nBytesPerPixel =
                          of_int (trunc_rat (if nBytesPerPixelFactor < 1 then 1
                                             else nBytesPerPixelFactor)),
                        nBytesPerRow = bpr,
                        nPaddingSize = pad,
                        nRowDataSize = bpr + ucast pad\<rparr>)))"

text \<open>
  The inner loop: \<open>nBytesPerRow\<close> reads of \<open>nBytesPerPixel\<close> bytes each into the four
  bytes of \<^verbatim>\<open>nDataProcessing\<close>. A read that returns more than four bytes writes past
  the variable, and \<^verbatim>\<open>PrintBinary\<close>, called with the same address and \<open>nBytesPerPixel\<close>
  as its size, reads past it whenever \<open>nBytesPerPixel\<close> exceeds four.
\<close>

function pixel_loop :: "nat \<Rightarrow> geometry \<Rightarrow> int \<Rightarrow> world \<Rightarrow> (fault + bool) option \<times> world" where
  "pixel_loop nCount g fd w =
     (if nCount < unat (nBytesPerRow g) then
        (case sys_read w fd (unat (nBytesPerPixel g)) of
           (n, got, w1) \<Rightarrow>
             if n > 4 then (Some (Inl BufferOverrun), w1)
             else if \<not> n \<ge> 0 then (Some (Inr False), w1)
             else if unat (nBytesPerPixel g) > 4 then (Some (Inl BufferOverrun), w1)
             else pixel_loop (Suc nCount) g fd w1)
      else (None, w))"
  by pat_completeness auto
termination
  by (relation "measure (\<lambda>(nCount, g, fd, w). unat (nBytesPerRow g) - nCount)") auto

text \<open>
  The outer loop. \<^verbatim>\<open>ABS (nHeight)\<close> multiplies a negative height by \<open>-1\<close>, which
  overflows for \<open>-2^31\<close>. The offset is computed in \<^verbatim>\<open>uint32_t\<close> and wraps.
\<close>

function rows_loop :: "nat \<Rightarrow> geometry \<Rightarrow> BMPHeader \<Rightarrow> int \<Rightarrow> world \<Rightarrow> (fault + bool) option \<times> world" where
  "rows_loop nRowCount g h fd w =
     (if sint (nHeight h) = - (2 ^ 31) then (Some (Inl SignedOverflow), w)
      else if nRowCount < nat \<bar>sint (nHeight h)\<bar> then
        (case sys_lseek w fd (uint (nDataOffSet h + nRowDataSize g * of_nat nRowCount)) of
           (nReturn, w1) \<Rightarrow>
             if \<not> nReturn > 0 then (Some (Inr False), w1)
             else
               (case pixel_loop 0 g fd w1 of
                  (Some res, w2) \<Rightarrow> (Some res, w2)
                | (None, w2) \<Rightarrow> rows_loop (Suc nRowCount) g h fd w2))
      else (None, w))"
  by pat_completeness auto
termination
  by (relation "measure (\<lambda>(nRowCount, g, h, fd, w). nat \<bar>sint (nHeight h)\<bar> - nRowCount)") auto

text \<open>\<^verbatim>\<open>LoadRGBData\<close> assigns no member of the object: it returns the object it was given.\<close>

definition LoadRGBData :: "world \<Rightarrow> BMP \<Rightarrow> (fault + bool) \<times> world \<times> BMP" where
  "LoadRGBData w b =
     (if \<not> signature (m_bmpHeader b) = BMP_SIGNATURE then (Inr False, w, b)
      else
        (case LoadRGBData_geometry (m_bmpHeader b) of
           Inl f \<Rightarrow> (Inl f, w, b)
         | Inr g \<Rightarrow>
             (case rows_loop 0 g (m_bmpHeader b) (m_nFD b) w of
                (Some res, w1) \<Rightarrow> (res, w1, b)
              | (None, w1) \<Rightarrow> (Inr True, w1, b))))"

subsection \<open>Load and main\<close>

text \<open>
  \<^verbatim>\<open>Load\<close>. Between the header read and the signature test the method prints
  \<^verbatim>\<open>nBitmapByteSize / nHeight\<close>, an integer division whose divisor is the height
  field. The results of \<^verbatim>\<open>LoadColorPalleta\<close> and \<^verbatim>\<open>LoadRGBData\<close> are dropped.
\<close>

definition Load :: "world \<Rightarrow> BMP \<Rightarrow> string \<Rightarrow> (fault + bool) \<times> world \<times> BMP" where
  "Load w b strFileName =
     (if \<not> length strFileName \<noteq> 0 then (Inr False, w, b)
      else
        (case sys_open w strFileName of
           (fd, w1) \<Rightarrow>
             if \<not> fd > 0
             then (Inr False, w1,
                   b\<lparr>m_bmpHeader := header_of_bytes (replicate 54 0), m_nFD := fd\<rparr>)
             else
               (case sys_read w1 fd 54 of
                  (n, got, w2) \<Rightarrow>
                    (let b1 = b\<lparr>m_bmpHeader :=
                                   header_of_bytes (store_bytes (replicate 54 0) got),
                                 m_nFD := fd\<rparr>
                     in if \<not> n \<ge> 0 then (Inr False, w2, b1)
                        else if nHeight (m_bmpHeader b1) = 0 then (Inl DivideByZero, w2, b1)
                        else if \<not> signature (m_bmpHeader b1) = BMP_SIGNATURE
                        then (Inr False, w2, b1)
                        else if \<not> nCompressionMethod (m_bmpHeader b1) = BMP_BI_RGB
                        then (Inr False, w2, b1)
                        else
                          (case LoadColorPalleta w2 b1 of
                             (Inl f, w3, b2) \<Rightarrow> (Inl f, w3, b2)
                           | (Inr r1, w3, b2) \<Rightarrow>
                               (case LoadRGBData w3 b2 of
                                  (Inl f, w4, b3) \<Rightarrow> (Inl f, w4, b3)
                                | (Inr r2, w4, b3) \<Rightarrow>
                                    (Inr True, snd (sys_close w4 (m_nFD b3)), b3)))))))"

text \<open>
  \<^verbatim>\<open>main\<close>: the exit status. \<open>ppszArgs\<close> holds the program's name and its arguments.
\<close>

definition main :: "world \<Rightarrow> string list \<Rightarrow> (fault + int) \<times> world \<times> BMP" where
  "main w ppszArgs =
     (if length ppszArgs \<noteq> 2 then (Inr 1, w, BMP_new)
      else
        (case Load w BMP_new (ppszArgs ! 1) of
           (Inl f, w1, b1) \<Rightarrow> (Inl f, w1, b1)
         | (Inr r, w1, b1) \<Rightarrow> (Inr 0, w1, b1)))"

subsection \<open>Sample inputs\<close>

text \<open>
  Descriptors 0, 1 and 2 of a process started from a shell. What they are open on plays
  no part; \<^verbatim>\<open>open\<close> then returns 3. The heap has one mebibyte to give.
\<close>

definition console :: open_file where
  "console = \<lparr>of_node = Regular [], of_pos = 0\<rparr>"

definition shell_world :: "(string \<times> node) list \<Rightarrow> world" where
  "shell_world files =
     \<lparr>fs = files, fd_table = [Some console, Some console, Some console], trace = [],
      heap_free = 1048576\<rparr>"

text \<open>
  The 54 header bytes of a file. Each field is given by its lowest byte, its other
  bytes are 0; the colour planes are 1 and the fields that the loader ignores are 0.
\<close>

definition bmp_file_header ::
  "byte \<Rightarrow> byte \<Rightarrow> byte \<Rightarrow> byte \<Rightarrow> byte \<Rightarrow> byte \<Rightarrow> byte \<Rightarrow> byte \<Rightarrow> byte \<Rightarrow> byte list" where
  "bmp_file_header sig0 sig1 dataOffset infoHeaderSize width height bits compression colors =
     [sig0, sig1, 0, 0, 0, 0, 0, 0, 0, 0, dataOffset, 0, 0, 0,
      infoHeaderSize, 0, 0, 0, width, 0, 0, 0, height, 0, 0, 0, 1, 0, bits, 0,
      compression, 0, 0, 0, 0, 0, 0, 0, 0, 0, 0, 0, 0, 0, 0, 0, colors, 0, 0, 0, 0, 0, 0, 0]"

text \<open>What a run of \<^verbatim>\<open>Load\<close> leaves behind: its result, the system calls made, the
  offsets of the descriptors that are open, and the object's two arrays.\<close>

definition observe ::
  "(fault + bool) \<times> world \<times> BMP \<Rightarrow>
     (fault + bool) \<times> syscall list \<times> nat option list \<times> RGB list option \<times> RGB list option" where
  "observe res =
     (fst res, trace (fst (snd res)), map (map_option of_pos) (fd_table (fst (snd res))),
      m_pRGBData (snd (snd res)), m_pRGBPalleta (snd (snd res)))"

text \<open>
  The end-to-end scenario of the specification: 2 by 2 pixels, 24 bits, the bottom row
  (red, green) first, each row padded to 8 bytes.
\<close>

definition scenario_2x2 :: "byte list" where
  "scenario_2x2 =
     bmp_file_header 0x42 0x4D 54 40 2 2 24 0 0 @
     [0, 0, 255, 0, 255, 0, 0, 0, 255, 0, 0, 255, 255, 255, 0, 0]"

text \<open>One pixel wide, two rows, 24 bits.\<close>

definition two_rows :: "byte list" where
  "two_rows = bmp_file_header 0x42 0x4D 54 40 1 2 24 0 0 @ [1, 2, 3, 0, 4, 5, 6, 0]"

text \<open>One pixel, 24 bits.\<close>

definition one_pixel :: "byte list" where
  "one_pixel = bmp_file_header 0x42 0x4D 54 40 1 1 24 0 0 @ [0x10, 0x20, 0x30, 0]"

text \<open>One pixel with the bit depth 32, which the specification does not support.\<close>

definition depth_32 :: "byte list" where
  "depth_32 = bmp_file_header 0x42 0x4D 54 40 1 1 32 0 0 @ [1, 2, 3, 4]"

text \<open>The file \<open>one_pixel\<close> with the signature \<open>XX\<close>.\<close>

definition bad_signature :: "byte list" where
  "bad_signature = bmp_file_header 0x58 0x58 54 40 1 1 24 0 0 @ [0x10, 0x20, 0x30, 0]"

text \<open>The rejection scenario of the specification: the compression field is 1 (RLE8).\<close>

definition rle8_file :: "byte list" where
  "rle8_file = bmp_file_header 0x42 0x4D 54 40 1 1 8 1 0 @ [0, 0, 0, 0]"

text \<open>One pixel of 8 bits with \<open>colorsUsed = 0\<close>, and one of 24 bits with
  \<open>colorsUsed = 1\<close> and four bytes between the header and the pixel data.\<close>

definition indexed_no_count :: "byte list" where
  "indexed_no_count = bmp_file_header 0x42 0x4D 54 40 1 1 8 0 0 @ [0, 0, 0, 0]"

definition truecolor_with_count :: "byte list" where
  "truecolor_with_count =
     bmp_file_header 0x42 0x4D 58 40 1 1 24 0 1 @ [7, 8, 9, 0] @ [0x10, 0x20, 0x30, 0]"

text \<open>One pixel of 8 bits with a palette of one entry, whose bytes are
  \<open>0x10, 0x20, 0x30, 0x00\<close>.\<close>

definition one_colour :: "byte list" where
  "one_colour = bmp_file_header 0x42 0x4D 58 40 1 1 8 0 1 @ [0x10, 0x20, 0x30, 0] @ [0, 0, 0, 0]"

text \<open>
  A header as \<^verbatim>\<open>Load\<close> leaves it in the object after reading a file with the valid
  signature, no compression, the pixel data at offset 54 and a 40-byte info header.
\<close>

definition sample_header :: "32 word \<Rightarrow> 32 word \<Rightarrow> 16 word \<Rightarrow> 32 word \<Rightarrow> BMPHeader" where
  "sample_header width height bits colors =
     \<lparr>signature = 19778, nBitmapByteSize = 0, nReserved = 0, nDataOffSet = 54,
      nBIDHeaderSize = 40, nWidth = width, nHeight = height, nColorPanes = 1,
      nBitPerPixel = bits, nCompressionMethod = 0, nRawBitmapSize = 0,
      nWidthPixPerMeter = 0, nHeightPixPerMeter = 0, nColorsInPalleta = colors,
      nImportantColors = 0\<rparr>"

text \<open>
  The state in which \<^verbatim>\<open>Load\<close> calls \<^verbatim>\<open>LoadColorPalleta\<close> and \<^verbatim>\<open>LoadRGBData\<close>: the file
  is open on descriptor 3 (here at offset \<open>pos\<close>) and its first 54 bytes are the
  object's header.
\<close>

definition opened_world :: "byte list \<Rightarrow> nat \<Rightarrow> world" where
  "opened_world file pos =
     \<lparr>fs = [(''a.bmp'', Regular file)],
      fd_table = [Some console, Some console, Some console,
                  Some \<lparr>of_node = Regular file, of_pos = pos\<rparr>],
      trace = [], heap_free = 1048576\<rparr>"

definition loaded_object :: "byte list \<Rightarrow> BMP" where
  "loaded_object file = BMP_new\<lparr>m_bmpHeader := header_of_bytes (take 54 file), m_nFD := 3\<rparr>"

text \<open>
  The seeks and the reads among a list of system calls, in their order: the descriptor
  with the offset, and the descriptor with the number of bytes asked for.
\<close>

fun seeks :: "syscall list \<Rightarrow> (int \<times> int) list" where
  "seeks [] = []"
| "seeks (SysLseek fd off # cs) = (fd, off) # seeks cs"
| "seeks (c # cs) = seeks cs"

fun reads :: "syscall list \<Rightarrow> (int \<times> nat) list" where
  "reads [] = []"
| "reads (SysRead fd n # cs) = (fd, n) # reads cs"
| "reads (c # cs) = reads cs"

text \<open>The seek to file row \<open>r\<close>: \<open>dataOffset + r * rowStride\<close>, computed in \<^verbatim>\<open>uint32_t\<close>.\<close>

definition row_seek :: "geometry \<Rightarrow> BMPHeader \<Rightarrow> int \<Rightarrow> nat \<Rightarrow> int \<times> int" where
  "row_seek g h fd r = (fd, uint (nDataOffSet h + nRowDataSize g * of_nat r))"

text \<open>The widest image a header can declare, at 16 bits per pixel.\<close>

definition wide_header :: BMPHeader where
  "wide_header = sample_header 2147483647 1 16 0"

subsection \<open>The scanline geometry in the specification's words\<close>

definition spec_bytesPerRow :: "int \<Rightarrow> nat \<Rightarrow> nat" where
  "spec_bytesPerRow width bitDepth = nat \<lceil>(of_int width * of_nat bitDepth / 8 :: rat)\<rceil>"

definition spec_padding :: "nat \<Rightarrow> nat" where
  "spec_padding bytesPerRow = (4 - bytesPerRow mod 4) mod 4"

definition spec_rowStride :: "nat \<Rightarrow> nat" where
  "spec_rowStride bytesPerRow = bytesPerRow + spec_padding bytesPerRow"

section \<open>Properties\<close>

declare palleta_loop.simps [simp del]
declare pixel_loop.simps [simp del]
declare rows_loop.simps [simp del]

text \<open>The equations that run the model on a sample input.\<close>

lemmas run_defs =
  Load_def LoadColorPalleta_def LoadRGBData_def LoadRGBData_geometry_def RoundUp_def
  trunc_rat_def sys_open_def sys_read_def sys_lseek_def sys_close_def fd_lookup_def
  install_def store_bytes_def header_of_bytes_def field16_def field32_def BMP_new_def
  BMP_SIGNATURE_def BMP_BI_RGB_def BMP_HEADERSIZE_def Let_def palleta_loop.simps
  pixel_loop.simps rows_loop.simps observe_def shell_world_def console_def
  bmp_file_header_def fresh_RGB_def opened_world_def loaded_object_def

subsection \<open>Guards that return before any I/O\<close>

lemma le_nat_replicate_zero: "le_nat (replicate n 0) = 0"
  by (induction n) simp_all

lemma header_of_zero_bytes:
  "header_of_bytes (replicate 54 0) =
     \<lparr>signature = 0, nBitmapByteSize = 0, nReserved = 0, nDataOffSet = 0,
      nBIDHeaderSize = 0, nWidth = 0, nHeight = 0, nColorPanes = 0, nBitPerPixel = 0,
      nCompressionMethod = 0, nRawBitmapSize = 0, nWidthPixPerMeter = 0,
      nHeightPixPerMeter = 0, nColorsInPalleta = 0, nImportantColors = 0\<rparr>"
  by (simp add: header_of_bytes_def field16_def field32_def le_nat_replicate_zero)

text \<open>
  C9. For the empty file name, \<^verbatim>\<open>Load\<close> returns \<^verbatim>\<open>false\<close> at once: the operating-system
  state, and with it the list of system calls, is the one it started from (no \<^verbatim>\<open>open\<close>,
  \<^verbatim>\<open>lseek\<close> or \<^verbatim>\<open>read\<close> was attempted), and the object is untouched.
\<close>

theorem Load_empty_filename:
  "Load w b [] = (Inr False, w, b)"
  by (simp add: Load_def)

text \<open>
  C10. When the stored header's signature field is not 19778, \<^verbatim>\<open>LoadColorPalleta\<close> and
  \<^verbatim>\<open>LoadRGBData\<close> each return \<^verbatim>\<open>false\<close> and leave the operating-system state as it was:
  no seek and no read is made. Palette or pixel I/O therefore needs a header with the
  valid signature in the object.
\<close>

theorem loaders_need_signature:
  "signature (m_bmpHeader b) \<noteq> 19778 \<Longrightarrow>
     LoadColorPalleta w b = (Inr False, w, b) \<and> LoadRGBData w b = (Inr False, w, b)"
  by (simp add: LoadColorPalleta_def LoadRGBData_def BMP_SIGNATURE_def)

theorem loaders_need_signature_witness:
  "signature (m_bmpHeader BMP_new) \<noteq> 19778 \<and>
   LoadColorPalleta (shell_world []) BMP_new = (Inr False, shell_world [], BMP_new) \<and>
   LoadRGBData (shell_world []) BMP_new = (Inr False, shell_world [], BMP_new)"
proof -
  have sig: "signature (m_bmpHeader BMP_new) \<noteq> 19778"
    by (simp add: BMP_new_def header_of_zero_bytes)
  show ?thesis
    using sig loaders_need_signature [OF sig, of "shell_world []"] by simp
qed

subsection \<open>Scanline geometry\<close>

lemma RoundUp_nonneg:
  assumes "0 \<le> v" "v < 2 ^ 64"
  shows "RoundUp v = Inr (of_int \<lceil>v\<rceil>)"
proof -
  have t: "trunc_rat v = \<lfloor>v\<rfloor>" using assms by (simp add: trunc_rat_def)
  have "0 \<le> \<lfloor>v\<rfloor>" using assms by simp
  moreover have "\<lfloor>v\<rfloor> < 2 ^ 64" using assms by (simp add: floor_less_iff)
  ultimately show ?thesis
    by (simp add: RoundUp_def t ceiling_altdef)
qed

lemma trunc_rat_of_int: "trunc_rat (of_int k) = k"
  by (simp add: trunc_rat_def)

lemma trunc_rat_of_nat: "trunc_rat (of_nat n) = int n"
  by (simp add: trunc_rat_def)

lemma unat_padding:
  fixes x :: "32 word"
  shows "unat (ucast (if x mod 4 > 0 then 4 - x mod 4 else 0 :: 32 word) :: 8 word) = (4 - unat x mod 4) mod 4"
proof -
  define r where "r = x mod 4"
  have ur: "unat x mod 4 = unat r" by (simp add: r_def unat_mod)
  have rr: "r = of_nat (unat r)" by simp
  have "unat r < 4" using ur [symmetric] by simp
  then consider "unat r = 0" | "unat r = 1" | "unat r = 2" | "unat r = 3" by linarith
  then have "unat (ucast (if r > 0 then 4 - r else 0 :: 32 word) :: 8 word) = (4 - unat x mod 4) mod 4"
  proof cases
    case 1 then have "r = 0" using rr by simp
    then show ?thesis unfolding ur by simp
  next
    case 2 then have "r = 1" using rr by simp
    then show ?thesis unfolding ur by simp
  next
    case 3 then have "r = 2" using rr by simp
    then show ?thesis unfolding ur by simp
  next
    case 4 then have "r = 3" using rr by simp
    then show ?thesis unfolding ur by simp
  qed
  then show ?thesis unfolding r_def .
qed

lemma unat_ucast_8_32: "unat (ucast (P :: 8 word) :: 32 word) = unat P"
proof -
  have "unat P < 2 ^ 8" using unsigned_less [of P] by simp
  then have "unat P < 2 ^ 32" by simp
  then show ?thesis by (simp add: unsigned_ucast_eq take_bit_nat_eq_self)
qed

lemma dvd_padding: "4 dvd B + spec_padding B"
proof -
  define q where "q = B div 4"
  define r where "r = B mod 4"
  have B: "B = 4 * q + r" by (simp add: q_def r_def)
  have p: "spec_padding B = (4 - r) mod 4" by (simp add: spec_padding_def r_def)
  have "r < 4" by (simp add: r_def)
  then consider "r = 0" | "r = 1" | "r = 2" | "r = 3" by linarith
  then have "B + (4 - r) mod 4 = 4 * q \<or> B + (4 - r) mod 4 = 4 * (q + 1)"
    by cases (simp_all add: B)
  then have "4 dvd B + (4 - r) mod 4"
    by (elim disjE) (simp_all only: dvd_triv_left)
  then show ?thesis by (simp only: p)
qed

text \<open>
  C5 (amended). For every width \<open>> 0\<close> and bit depth in \<open>{1, 4, 8, 16, 24}\<close> whose padded
  row still fits the \<^verbatim>\<open>uint32_t\<close> the code computes in (\<open>bytesPerRow + padding < 2^32\<close>),
  the geometry of \<^verbatim>\<open>LoadRGBData\<close> is defined and satisfies
  \<open>bytesPerRow = ceil (width * bitDepth / 8)\<close>, \<open>padding = (4 - bytesPerRow mod 4) mod 4\<close>,
  \<open>rowStride = bytesPerRow + padding\<close>, and \<open>rowStride\<close> is a multiple of 4.
\<close>

theorem geometry_matches_spec:
  assumes w: "0 < sint (nWidth h)"
    and d: "unat (nBitPerPixel h) \<in> {1, 4, 8, 16, 24}"
    and fit: "spec_rowStride (spec_bytesPerRow (sint (nWidth h)) (unat (nBitPerPixel h))) < 2 ^ 32"
  shows "\<exists>g. LoadRGBData_geometry h = Inr g
           \<and> unat (nBytesPerRow g) = spec_bytesPerRow (sint (nWidth h)) (unat (nBitPerPixel h))
           \<and> unat (nPaddingSize g) = spec_padding (unat (nBytesPerRow g))
           \<and> unat (nRowDataSize g) = spec_rowStride (unat (nBytesPerRow g))
           \<and> 4 dvd unat (nRowDataSize g)"
proof -
  define W where "W = sint (nWidth h)"
  define D where "D = unat (nBitPerPixel h)"
  define v :: rat where "v = of_int W * (of_nat D / 8)"
  have Wpos: "0 < W" using w by (simp add: W_def)
  have Wb: "W < 2 ^ 31" unfolding W_def using sint_lt [of "nWidth h"] by simp
  have Db: "1 \<le> D" "D \<le> 24" using d by (auto simp: D_def)
  have "(of_nat D :: rat) / 8 \<le> 3" using Db by simp
  then have f1: "\<not> 256 \<le> trunc_rat (if (of_nat D :: rat) / 8 < 1 then 1 else of_nat D / 8)"
    by (auto simp: trunc_rat_def le_floor_iff)
  have v0: "0 \<le> v" using Wpos by (simp add: v_def)
  have "v \<le> of_int W * 3" unfolding v_def using Db Wpos
    by (intro mult_left_mono) auto
  also have "\<dots> < of_int (2 ^ 31) * 3" using Wb by simp
  also have "\<dots> < 2 ^ 64" by simp
  finally have v1: "v < 2 ^ 64" .
  have ru: "RoundUp v = Inr (of_int \<lceil>v\<rceil>)" using RoundUp_nonneg [OF v0 v1] .
  define B where "B = nat \<lceil>v\<rceil>"
  have Bspec: "B = spec_bytesPerRow W D" by (simp add: B_def spec_bytesPerRow_def v_def)
  have Bfit: "B + spec_padding B < 2 ^ 32" using fit by (simp add: Bspec spec_rowStride_def W_def D_def)
  have c0: "0 \<le> \<lceil>v\<rceil>" using v0 by (simp add: ceiling_le_iff) 
  then have cB: "\<lceil>v\<rceil> = int B" by (simp add: B_def)
  have ub: "unat (of_nat B :: 32 word) = B"
    using Bfit by (simp add: unat_of_nat)
  have up: "unat (ucast (if (of_nat B :: 32 word) mod 4 > 0 then 4 - (of_nat B :: 32 word) mod 4 else 0 :: 32 word) :: 8 word) = spec_padding B"
    by (simp only: unat_padding ub spec_padding_def)
  define P :: "8 word" where "P = ucast (if (of_nat B :: 32 word) mod 4 > 0 then 4 - (of_nat B :: 32 word) mod 4 else 0 :: 32 word)"
  have uP: "unat P = spec_padding B" using up by (simp only: P_def)
  have uP32: "unat (ucast P :: 32 word) = spec_padding B" using uP by (simp only: unat_ucast_8_32)
  have us: "unat (of_nat B + ucast P :: 32 word) = B + spec_padding B"
    using Bfit ub uP32 by (simp add: unat_add_lem [THEN iffD1])
  have dv: "4 dvd B + spec_padding B" by (rule dvd_padding)
  have geo: "LoadRGBData_geometry h = Inr \<lparr>nBytesPerPixel = of_int (trunc_rat (if (of_nat D :: rat) / 8 < 1 then 1 else of_nat D / 8)),
      nBytesPerRow = of_nat B, nPaddingSize = P, nRowDataSize = of_nat B + ucast P\<rparr>"
    unfolding LoadRGBData_geometry_def D_def [symmetric] W_def [symmetric] Let_def v_def [symmetric] using f1 Bfit
    by (simp add: ru trunc_rat_of_int trunc_rat_of_nat cB P_def)
  show ?thesis
    unfolding geo W_def [symmetric] D_def [symmetric]
    by (simp add: ub uP us dv Bspec [symmetric] spec_rowStride_def)
qed

theorem geometry_matches_spec_witness:
  "(0 < sint (nWidth (sample_header 3 1 24 0)) \<and>
    unat (nBitPerPixel (sample_header 3 1 24 0)) \<in> {1, 4, 8, 16, 24} \<and>
    (\<exists>g. LoadRGBData_geometry (sample_header 3 1 24 0) = Inr g \<and>
         unat (nBytesPerRow g) = 9 \<and> unat (nPaddingSize g) = 3 \<and> unat (nRowDataSize g) = 12 \<and>
         4 dvd unat (nRowDataSize g))) \<and>
   (0 < sint (nWidth (sample_header 21 1 1 0)) \<and>
    unat (nBitPerPixel (sample_header 21 1 1 0)) \<in> {1, 4, 8, 16, 24} \<and>
    (\<exists>g. LoadRGBData_geometry (sample_header 21 1 1 0) = Inr g \<and>
         unat (nBytesPerRow g) = 3 \<and> unat (nPaddingSize g) = 1 \<and> unat (nRowDataSize g) = 4 \<and>
         4 dvd unat (nRowDataSize g)))"
proof -
  have a: "0 < sint (nWidth (sample_header 3 1 24 0))"
    and b: "unat (nBitPerPixel (sample_header 3 1 24 0)) \<in> {1, 4, 8, 16, 24}"
    and c: "spec_rowStride (spec_bytesPerRow (sint (nWidth (sample_header 3 1 24 0)))
              (unat (nBitPerPixel (sample_header 3 1 24 0)))) < 2 ^ 32"
    and s1: "spec_bytesPerRow (sint (nWidth (sample_header 3 1 24 0)))
              (unat (nBitPerPixel (sample_header 3 1 24 0))) = 9"
    by (simp_all add: sample_header_def spec_rowStride_def spec_bytesPerRow_def spec_padding_def)
  have ce: "\<lceil>(21 / 8 :: rat)\<rceil> = 3" by (simp add: ceiling_eq_iff)
  have a': "0 < sint (nWidth (sample_header 21 1 1 0))"
    and b': "unat (nBitPerPixel (sample_header 21 1 1 0)) \<in> {1, 4, 8, 16, 24}"
    and c': "spec_rowStride (spec_bytesPerRow (sint (nWidth (sample_header 21 1 1 0)))
              (unat (nBitPerPixel (sample_header 21 1 1 0)))) < 2 ^ 32"
    and s2: "spec_bytesPerRow (sint (nWidth (sample_header 21 1 1 0)))
              (unat (nBitPerPixel (sample_header 21 1 1 0))) = 3"
    by (simp_all add: sample_header_def spec_rowStride_def spec_bytesPerRow_def spec_padding_def ce)
  have p: "spec_padding 9 = 3" "spec_rowStride 9 = 12" "spec_padding 3 = 1" "spec_rowStride 3 = 4"
    by (simp_all add: spec_padding_def spec_rowStride_def)
  from geometry_matches_spec [OF a b c]
  have g1: "\<exists>g. LoadRGBData_geometry (sample_header 3 1 24 0) = Inr g \<and>
         unat (nBytesPerRow g) = 9 \<and> unat (nPaddingSize g) = 3 \<and> unat (nRowDataSize g) = 12 \<and>
         4 dvd unat (nRowDataSize g)"
    unfolding s1 by (auto simp: p)
  from geometry_matches_spec [OF a' b' c']
  have g2: "\<exists>g. LoadRGBData_geometry (sample_header 21 1 1 0) = Inr g \<and>
         unat (nBytesPerRow g) = 3 \<and> unat (nPaddingSize g) = 1 \<and> unat (nRowDataSize g) = 4 \<and>
         4 dvd unat (nRowDataSize g)"
    unfolding s2 by (auto simp: p)
  show ?thesis using a b a' b' g1 g2 by blast
qed

text \<open>
  The claim as stated, for every width: at width \<open>2^31 - 1\<close> and 16 bits per pixel the
  code's \<open>nRowDataSize\<close> wraps to 0, while \<open>bytesPerRow + padding\<close> is \<open>2^32\<close>.
\<close>

theorem geometry_wraps_counterexample:
  "0 < sint (nWidth wide_header) \<and> unat (nBitPerPixel wide_header) = 16 \<and>
   LoadRGBData_geometry wide_header =
     Inr \<lparr>nBytesPerPixel = 2, nBytesPerRow = 4294967294, nPaddingSize = 2, nRowDataSize = 0\<rparr> \<and>
   spec_rowStride (spec_bytesPerRow (sint (nWidth wide_header)) (unat (nBitPerPixel wide_header)))
     = 4294967296"
  by (simp add: wide_header_def sample_header_def LoadRGBData_geometry_def RoundUp_def
        trunc_rat_def Let_def spec_rowStride_def spec_bytesPerRow_def spec_padding_def)

subsection \<open>The row decoder\<close>

lemma seeks_append: "seeks (xs @ ys) = seeks xs @ seeks ys"
  by (induction xs rule: seeks.induct) simp_all

lemma sys_read_trace:
  "sys_read w fd n = (r, got, w1) \<Longrightarrow> trace w1 = trace w @ [SysRead fd n]"
  by (auto simp: sys_read_def split: option.splits node.splits)

lemma sys_lseek_trace:
  "sys_lseek w fd off = (r, w1) \<Longrightarrow> trace w1 = trace w @ [SysLseek fd off]"
  by (auto simp: sys_lseek_def split: option.splits if_splits)

lemma pixel_loop_seeks:
  "pixel_loop nCount g fd w = (res, w') \<Longrightarrow> \<exists>evs. trace w' = trace w @ evs \<and> seeks evs = []"
proof (induction nCount g fd w rule: pixel_loop.induct)
  case (1 nCount g fd w)
  obtain n got w1 where rd: "sys_read w fd (unat (nBytesPerPixel g)) = (n, got, w1)"
    by (rule prod_cases3)
  have tr: "trace w1 = trace w @ [SysRead fd (unat (nBytesPerPixel g))]"
    using rd by (rule sys_read_trace)
  show ?case
  proof (cases "nCount < unat (nBytesPerRow g) \<and> \<not> 4 < n \<and> 0 \<le> n
                  \<and> \<not> 4 < unat (nBytesPerPixel g)")
    case True
    with "1.prems" rd have rec: "pixel_loop (Suc nCount) g fd w1 = (res, w')"
      by (simp add: pixel_loop.simps [of nCount])
    from "1.IH" [of n "(got, w1)" got w1] True rd rec
    obtain evs where "trace w' = trace w1 @ evs" "seeks evs = []" by auto
    then show ?thesis
      using tr by (intro exI [of _ "SysRead fd (unat (nBytesPerPixel g)) # evs"]) simp
  next
    case False
    with "1.prems" rd have "w' = w \<or> w' = w1"
      by (auto simp: pixel_loop.simps [of nCount] split: if_splits)
    then show ?thesis
    proof
      assume "w' = w"
      then show ?thesis by (intro exI [of _ "[]"]) simp
    next
      assume "w' = w1"
      then show ?thesis
        using tr by (intro exI [of _ "[SysRead fd (unat (nBytesPerPixel g))]"]) simp
    qed
  qed
qed

lemma rows_loop_seeks:
  "rows_loop nRowCount g h fd w = (None, w') \<Longrightarrow>
     \<exists>evs. trace w' = trace w @ evs \<and>
           seeks evs = map (row_seek g h fd) [nRowCount..<nat \<bar>sint (nHeight h)\<bar>]"
proof (induction nRowCount g h fd w rule: rows_loop.induct)
  case (1 nRowCount g h fd w)
  from "1.prems" have nomin: "sint (nHeight h) \<noteq> - (2 ^ 31)"
    by (auto simp: rows_loop.simps [of nRowCount] split: if_splits)
  show ?case
  proof (cases "nRowCount < nat \<bar>sint (nHeight h)\<bar>")
    case False
    with "1.prems" nomin have "w' = w" by (simp add: rows_loop.simps [of nRowCount])
    then show ?thesis using False by (intro exI [of _ "[]"]) simp
  next
    case True
    obtain r w1 where sk:
      "sys_lseek w fd (uint (nDataOffSet h + nRowDataSize g * of_nat nRowCount)) = (r, w1)"
      by (rule prod.exhaust)
    obtain res w2 where px: "pixel_loop 0 g fd w1 = (res, w2)"
      by (rule prod.exhaust)
    from "1.prems" True nomin sk px have ok: "0 < r" "res = None"
      and rec: "rows_loop (Suc nRowCount) g h fd w2 = (None, w')"
      by (auto simp: rows_loop.simps [of nRowCount] split: if_splits option.splits)
    have t1: "trace w1 = trace w @
        [SysLseek fd (uint (nDataOffSet h + nRowDataSize g * of_nat nRowCount))]"
      using sk by (rule sys_lseek_trace)
    from pixel_loop_seeks [OF px]
    obtain e2 where t2: "trace w2 = trace w1 @ e2" "seeks e2 = []" by auto
    from "1.IH" [of r w1 res w2] nomin True sk px ok rec
    obtain e3 where t3: "trace w' = trace w2 @ e3"
      "seeks e3 = map (row_seek g h fd) [Suc nRowCount..<nat \<bar>sint (nHeight h)\<bar>]"
      by auto
    show ?thesis
      using True t1 t2 t3
      by (intro exI [of _ "SysLseek fd (uint (nDataOffSet h + nRowDataSize g * of_nat nRowCount))
                            # e2 @ e3"])
         (simp add: seeks_append upt_conv_Cons row_seek_def [of g h fd nRowCount])
  qed
qed

lemma pixel_loop_not_true:
  "pixel_loop nCount g fd w = (Some r, w') \<Longrightarrow> r \<noteq> Inr True"
proof (induction nCount g fd w rule: pixel_loop.induct)
  case (1 nCount g fd w)
  obtain n got w1 where rd: "sys_read w fd (unat (nBytesPerPixel g)) = (n, got, w1)"
    by (rule prod_cases3)
  show ?case
    using "1.prems" "1.IH" [of n "(got, w1)" got w1] rd
    by (auto simp: pixel_loop.simps [of nCount] split: if_splits)
qed

lemma rows_loop_not_true:
  "rows_loop nRowCount g h fd w = (Some r, w') \<Longrightarrow> r \<noteq> Inr True"
proof (induction nRowCount g h fd w rule: rows_loop.induct)
  case (1 nRowCount g h fd w)
  obtain x w1 where sk:
    "sys_lseek w fd (uint (nDataOffSet h + nRowDataSize g * of_nat nRowCount)) = (x, w1)"
    by (rule prod.exhaust)
  obtain res w2 where px: "pixel_loop 0 g fd w1 = (res, w2)"
    by (rule prod.exhaust)
  show ?case
    using "1.prems" "1.IH" [of x w1 res w2] sk px pixel_loop_not_true [of 0 g fd w1 _ w2]
    by (auto simp: rows_loop.simps [of nRowCount] split: if_splits option.splits)
qed

text \<open>
  C2 (amended). Whenever \<^verbatim>\<open>LoadRGBData\<close> returns \<^verbatim>\<open>true\<close> on a header of height \<open>h\<close>, its
  seeks are, for each file row \<open>r\<close> from 0 to \<open>|h| - 1\<close> in this order, the seek to
  \<open>dataOffset + r * rowStride\<close>; no decoded row is written anywhere: the object, and with
  it the null pixel pointer, is returned as it was. What is read after each seek is
  not part of this statement.
\<close>

theorem LoadRGBData_row_seeks:
  assumes ok: "fst (LoadRGBData w b) = Inr True"
    and geo: "LoadRGBData_geometry (m_bmpHeader b) = Inr g"
  shows "(\<exists>evs. trace (fst (snd (LoadRGBData w b))) = trace w @ evs \<and>
               seeks evs = map (row_seek g (m_bmpHeader b) (m_nFD b))
                             [0..<nat \<bar>sint (nHeight (m_bmpHeader b))\<bar>])
         \<and> snd (snd (LoadRGBData w b)) = b"
proof -
  obtain res w1 where rl: "rows_loop 0 g (m_bmpHeader b) (m_nFD b) w = (res, w1)"
    by (rule prod.exhaust)
  from ok have sig: "signature (m_bmpHeader b) = BMP_SIGNATURE"
    by (auto simp: LoadRGBData_def split: if_splits)
  from ok sig geo rl have "res = None"
    using rows_loop_not_true [of 0 g "m_bmpHeader b" "m_nFD b" w _ w1]
    by (cases res) (auto simp: LoadRGBData_def)
  with rl have "\<exists>evs. trace w1 = trace w @ evs \<and>
      seeks evs = map (row_seek g (m_bmpHeader b) (m_nFD b))
                    [0..<nat \<bar>sint (nHeight (m_bmpHeader b))\<bar>]"
    using rows_loop_seeks by simp
  then show ?thesis using sig geo rl \<open>res = None\<close> by (simp add: LoadRGBData_def)
qed

theorem LoadRGBData_row_seeks_witness:
  "fst (LoadRGBData (opened_world two_rows 54) (loaded_object two_rows)) = Inr True \<and>
   LoadRGBData_geometry (m_bmpHeader (loaded_object two_rows)) =
     Inr \<lparr>nBytesPerPixel = 3, nBytesPerRow = 3, nPaddingSize = 1, nRowDataSize = 4\<rparr> \<and>
   seeks (trace (fst (snd (LoadRGBData (opened_world two_rows 54) (loaded_object two_rows))))) =
     [(3, 54), (3, 58)] \<and>
   snd (snd (LoadRGBData (opened_world two_rows 54) (loaded_object two_rows))) =
     loaded_object two_rows"
proof -
  have h1: "fst (LoadRGBData (opened_world two_rows 54) (loaded_object two_rows)) = Inr True"
    by (simp add: run_defs two_rows_def)
  have h2: "LoadRGBData_geometry (m_bmpHeader (loaded_object two_rows)) =
     Inr \<lparr>nBytesPerPixel = 3, nBytesPerRow = 3, nPaddingSize = 1, nRowDataSize = 4\<rparr>"
    by (simp add: run_defs two_rows_def)
  have h3: "trace (opened_world two_rows 54) = []"
      "m_nFD (loaded_object two_rows) = 3"
      "nat \<bar>sint (nHeight (m_bmpHeader (loaded_object two_rows)))\<bar> = 2"
      "nDataOffSet (m_bmpHeader (loaded_object two_rows)) = 54"
    by (simp_all add: run_defs two_rows_def)
  have h4: "[0..<2] = [0, Suc 0]" by (simp add: upt_rec numeral_2_eq_2)
  show ?thesis
    using LoadRGBData_row_seeks [OF h1 h2] h1 h2
    by (auto simp: h3 h4 row_seek_def)
qed

text \<open>
  The claim as stated, with the rows written into an ImageBuffer: on the two-row file
  \<^verbatim>\<open>Load\<close> returns \<^verbatim>\<open>true\<close> after seeking to both rows, and the pixel pointer is still
  null: file row 0 has populated no output row.
\<close>

theorem rows_not_stored_counterexample:
  "observe (Load (shell_world [(''a.bmp'', Regular two_rows)]) BMP_new ''a.bmp'') =
     (Inr True,
      [SysOpen ''a.bmp'', SysRead 3 54,
       SysLseek 3 54, SysRead 3 3, SysRead 3 3, SysRead 3 3,
       SysLseek 3 58, SysRead 3 3, SysRead 3 3, SysRead 3 3,
       SysClose 3],
      [Some 0, Some 0, Some 0, None], None, None)"
  by (simp add: run_defs two_rows_def)

text \<open>
  C8 (the code departs from the claim). On the one-pixel 24-bit file the row has
  \<open>width = 1\<close> sample of 3 bytes, that is \<open>bytesPerRow = 3\<close>. The inner loop runs
  \<open>nBytesPerRow\<close> times, not \<open>width\<close> times, and asks for \<open>nBytesPerPixel\<close> bytes each
  time: three reads of 3 bytes, 9 bytes requested for the row.
\<close>

theorem one_pixel_row_is_read_three_times:
  "observe (Load (shell_world [(''a.bmp'', Regular one_pixel)]) BMP_new ''a.bmp'') =
     (Inr True,
      [SysOpen ''a.bmp'', SysRead 3 54,
       SysLseek 3 54, SysRead 3 3, SysRead 3 3, SysRead 3 3,
       SysClose 3],
      [Some 0, Some 0, Some 0, None], None, None)"
  by (simp add: run_defs one_pixel_def)

subsection \<open>The file descriptor\<close>

text \<open>
  C4 (the code departs from the claim). On a file whose signature is not \<open>BM\<close>,
  \<^verbatim>\<open>Load\<close> returns \<^verbatim>\<open>false\<close> after \<^verbatim>\<open>open\<close> and the header \<^verbatim>\<open>read\<close>; no \<^verbatim>\<open>close\<close> follows and
  descriptor 3 is still open, at offset 54.
\<close>

theorem bad_signature_leaves_descriptor_open:
  "observe (Load (shell_world [(''a.bmp'', Regular bad_signature)]) BMP_new ''a.bmp'') =
     (Inr False, [SysOpen ''a.bmp'', SysRead 3 54], [Some 0, Some 0, Some 0, Some 54],
      None, None)"
  by (simp add: run_defs bad_signature_def)

subsection \<open>The palette loader\<close>

lemma palleta_loop_keeps:
  "palleta_loop nCount w b = (res, w', b') \<Longrightarrow>
     m_bmpHeader b' = m_bmpHeader b \<and> m_nFD b' = m_nFD b \<and> m_pRGBData b' = m_pRGBData b"
proof (induction nCount w b rule: palleta_loop.induct)
  case (1 nCount w b)
  obtain n got w1 where rd: "sys_read w (m_nFD b) 4 = (n, got, w1)"
    by (rule prod_cases3)
  show ?case
    using "1.prems" "1.IH" [of n "(got, w1)" got w1] rd
    by (auto simp: palleta_loop.simps [of nCount] split: if_splits)
qed

lemma palleta_loop_not_true:
  "palleta_loop nCount w b = (Some r, w', b') \<Longrightarrow> r \<noteq> Inr True"
proof (induction nCount w b rule: palleta_loop.induct)
  case (1 nCount w b)
  obtain n got w1 where rd: "sys_read w (m_nFD b) 4 = (n, got, w1)"
    by (rule prod_cases3)
  show ?case
    using "1.prems" "1.IH" [of n "(got, w1)" got w1] rd
    by (auto simp: palleta_loop.simps [of nCount] split: if_splits)
qed

lemma palleta_loop_length:
  "palleta_loop nCount w b = (res, w', b') \<Longrightarrow> m_pRGBPalleta b = Some p \<Longrightarrow>
     \<exists>p'. m_pRGBPalleta b' = Some p' \<and> length p' = length p"
proof (induction nCount w b arbitrary: p rule: palleta_loop.induct)
  case (1 nCount w b)
  obtain n got w1 where rd: "sys_read w (m_nFD b) 4 = (n, got, w1)"
    by (rule prod_cases3)
  show ?case
    using "1.prems" "1.IH" [of n "(got, w1)" got w1 "p[nCount := store_RGB (p ! nCount) got]"] rd
    by (auto simp: palleta_loop.simps [of nCount] split: if_splits)
qed

lemma palleta_loop_trace:
  "palleta_loop nCount w b = (res, w', b') \<Longrightarrow>
     \<exists>k \<le> unat (nColorsInPalleta (m_bmpHeader b)) - nCount.
        trace w' = trace w @ replicate k (SysRead (m_nFD b) 4) \<and>
        (res = None \<longrightarrow> k = unat (nColorsInPalleta (m_bmpHeader b)) - nCount)"
proof (induction nCount w b rule: palleta_loop.induct)
  case (1 nCount w b)
  let ?N = "unat (nColorsInPalleta (m_bmpHeader b))"
  let ?ev = "SysRead (m_nFD b) 4"
  show ?case
  proof (cases "nCount < ?N")
    case False
    with "1.prems" have "w' = w" "res = None" by (simp_all add: palleta_loop.simps [of nCount])
    then show ?thesis using False by (intro exI [of _ 0]) simp
  next
    case True
    obtain n got w1 where rd: "sys_read w (m_nFD b) 4 = (n, got, w1)"
      by (rule prod_cases3)
    have tr: "trace w1 = trace w @ [?ev]" using rd by (rule sys_read_trace)
    have one: "Suc 0 \<le> ?N - nCount" using True by simp
    let ?b1 = "b\<lparr>m_pRGBPalleta :=
                  map_option (\<lambda>p. p[nCount := store_RGB (p ! nCount) got]) (m_pRGBPalleta b)\<rparr>"
    consider (fail) "\<not> 0 < n" | (ovf) "0 < n" "nCount = 2 ^ 31 - 1"
      | (go) "0 < n" "nCount \<noteq> 2 ^ 31 - 1" by blast
    then show ?thesis
    proof cases
      case fail
      with "1.prems" True rd have "w' = w1" "res \<noteq> None"
        by (auto simp: palleta_loop.simps [of nCount])
      then show ?thesis using one tr by (intro exI [of _ "Suc 0"]) auto
    next
      case ovf
      from "1.prems" True rd ovf(1) have "nCount = 2 ^ 31 - 1 \<longrightarrow> w' = w1 \<and> res \<noteq> None"
        by (auto simp: palleta_loop.simps [of nCount])
      with ovf(2) have "w' = w1" "res \<noteq> None" by blast+
      then show ?thesis using one tr by (intro exI [of _ "Suc 0"]) auto
    next
      case go
      with "1.prems" True rd have rec: "palleta_loop (Suc nCount) w1 ?b1 = (res, w', b')"
        by (simp add: palleta_loop.simps [of nCount])
      from "1.IH" [of n "(got, w1)" got w1] True rd go rec
      obtain k where k: "k \<le> ?N - Suc nCount"
        "trace w' = trace w1 @ replicate k ?ev"
        "res = None \<longrightarrow> k = ?N - Suc nCount"
        by auto
      show ?thesis
        using k True tr by (intro exI [of _ "Suc k"]) auto
    qed
  qed
qed

lemma palette_offset:
  assumes "uint (bid :: 32 word) < 2 ^ 31 - 14"
  shows "sint (BMP_HEADERSIZE + bid) = 14 + uint bid"
proof -
  have "uint (14 :: 32 word) + uint bid < 2 ^ LENGTH(32)" using assms by simp
  then have ui: "uint (14 + bid) = 14 + uint bid"
    using uint_add_lem [of 14 bid] by simp
  have "signed_take_bit 31 (14 + uint bid) = 14 + uint bid"
    using assms by (intro signed_take_bit_int_eq_self) simp_all
  then show ?thesis
    using sint_uint [of "14 + bid"] by (simp add: BMP_HEADERSIZE_def ui)
qed

lemma sys_lseek_heap:
  "sys_lseek w fd off = (r, w1) \<Longrightarrow> heap_free w1 = heap_free w"
  by (auto simp: sys_lseek_def split: option.splits if_splits)

lemma sys_lseek_open:
  "fd_lookup (fd_table w) fd \<noteq> None \<Longrightarrow> 0 \<le> off \<Longrightarrow> fst (sys_lseek w fd off) = off"
  by (auto simp: sys_lseek_def split: option.splits)

text \<open>
  C6 (amended). For every header with the valid signature and an \<open>infoHeaderSize\<close> below
  \<open>2^31 - 14\<close> (so that the offset fits the \<^verbatim>\<open>int\<close> it is kept in), whatever the bit
  depth: when \<open>colorsUsed\<close> is zero, \<^verbatim>\<open>LoadColorPalleta\<close> returns \<^verbatim>\<open>true\<close> without any system
  call and loads no palette; when \<open>colorsUsed\<close> is nonzero, its system calls are one seek
  to \<open>14 + infoHeaderSize\<close> followed by at most \<open>colorsUsed\<close> reads of 4 bytes (exactly
  \<open>colorsUsed\<close> when it returns \<^verbatim>\<open>true\<close>), and if the descriptor is open and the heap can
  give the \<open>4 * colorsUsed\<close> bytes of the array, the palette it holds afterwards has
  length \<open>colorsUsed\<close>.
\<close>

theorem LoadColorPalleta_follows_colour_count:
  assumes sig: "signature (m_bmpHeader b) = 19778"
    and fit: "uint (nBIDHeaderSize (m_bmpHeader b)) < 2 ^ 31 - 14"
  shows "(nColorsInPalleta (m_bmpHeader b) = 0 \<longrightarrow> LoadColorPalleta w b = (Inr True, w, b)) \<and>
         (nColorsInPalleta (m_bmpHeader b) \<noteq> 0 \<longrightarrow>
            (\<exists>k \<le> unat (nColorsInPalleta (m_bmpHeader b)).
               trace (fst (snd (LoadColorPalleta w b))) =
                 trace w @ SysLseek (m_nFD b) (14 + uint (nBIDHeaderSize (m_bmpHeader b)))
                           # replicate k (SysRead (m_nFD b) 4) \<and>
               (fst (LoadColorPalleta w b) = Inr True \<longrightarrow>
                  k = unat (nColorsInPalleta (m_bmpHeader b)))) \<and>
            (fd_lookup (fd_table w) (m_nFD b) \<noteq> None \<and>
             4 * unat (nColorsInPalleta (m_bmpHeader b)) \<le> heap_free w + palette_bytes b \<longrightarrow>
               (\<exists>p. m_pRGBPalleta (snd (snd (LoadColorPalleta w b))) = Some p \<and>
                    length p = unat (nColorsInPalleta (m_bmpHeader b)))))"
proof (intro conjI impI)
  assume "nColorsInPalleta (m_bmpHeader b) = 0"
  then show "LoadColorPalleta w b = (Inr True, w, b)"
    using sig by (simp add: LoadColorPalleta_def BMP_SIGNATURE_def)
next
  let ?off = "14 + uint (nBIDHeaderSize (m_bmpHeader b))"
  let ?N = "unat (nColorsInPalleta (m_bmpHeader b))"
  let ?b0 = "b\<lparr>m_pRGBPalleta := Some (replicate ?N fresh_RGB)\<rparr>"
  have off: "sint (BMP_HEADERSIZE + nBIDHeaderSize (m_bmpHeader b)) = ?off"
    using fit by (rule palette_offset)
  assume nz: "nColorsInPalleta (m_bmpHeader b) \<noteq> 0"
  then have pos: "nColorsInPalleta (m_bmpHeader b) > 0" by (simp add: word_greater_zero_iff)
  obtain r w1 where sk: "sys_lseek w (m_nFD b) ?off = (r, w1)" by (rule prod.exhaust)
  have t1: "trace w1 = trace w @ [SysLseek (m_nFD b) ?off]" using sk by (rule sys_lseek_trace)
  have h1: "heap_free w1 = heap_free w" using sk by (rule sys_lseek_heap)
  let ?w1' = "w1\<lparr>heap_free := heap_free w1 + palette_bytes b - 4 * ?N\<rparr>"
  obtain res w' b' where pl: "palleta_loop 0 ?w1' ?b0 = (res, w', b')" by (rule prod_cases3)
  from palleta_loop_trace [OF pl]
  obtain k where k: "k \<le> ?N" "trace w' = trace w1 @ replicate k (SysRead (m_nFD b) 4)"
    "res = None \<longrightarrow> k = ?N" by auto
  have nt: "res \<noteq> Some (Inr True)" using palleta_loop_not_true [of 0 ?w1' ?b0 _ w' b'] pl
    by auto
  consider (noseek) "\<not> 0 < r" | (nomem) "0 < r" "heap_free w1 + palette_bytes b < 4 * ?N"
    | (run) "0 < r" "\<not> heap_free w1 + palette_bytes b < 4 * ?N" by blast
  then have L: "LoadColorPalleta w b =
      (if \<not> 0 < r then (Inr False, w1, b)
       else if heap_free w1 + palette_bytes b < 4 * ?N
       then (Inl BadAlloc, w1\<lparr>heap_free := heap_free w1 + palette_bytes b\<rparr>, b)
       else (case res of Some x \<Rightarrow> x | None \<Rightarrow> Inr True, w', b'))"
    using sig pos sk pl off
    by cases (cases res; simp add: LoadColorPalleta_def BMP_SIGNATURE_def)+
  show "\<exists>k \<le> ?N. trace (fst (snd (LoadColorPalleta w b))) =
                 trace w @ SysLseek (m_nFD b) ?off # replicate k (SysRead (m_nFD b) 4) \<and>
               (fst (LoadColorPalleta w b) = Inr True \<longrightarrow> k = ?N)"
  proof (cases "0 < r \<and> \<not> heap_free w1 + palette_bytes b < 4 * ?N")
    case False
    then show ?thesis using L t1 by (intro exI [of _ 0]) auto
  next
    case True
    then show ?thesis using L k t1 nt by (intro exI [of _ k]) (cases res; auto)
  qed
  assume "fd_lookup (fd_table w) (m_nFD b) \<noteq> None \<and> 4 * ?N \<le> heap_free w + palette_bytes b"
  then have op: "fd_lookup (fd_table w) (m_nFD b) \<noteq> None"
    and mem: "\<not> heap_free w1 + palette_bytes b < 4 * ?N" using h1 by simp_all
  have nn: "0 \<le> uint (nBIDHeaderSize (m_bmpHeader b))" by simp
  then have "0 \<le> ?off" by linarith
  from sys_lseek_open [OF op this] sk have "r = ?off" by simp
  with nn have r: "0 < r" by linarith
  from L r mem have B: "snd (snd (LoadColorPalleta w b)) = b'" by simp
  from palleta_loop_length [OF pl, of "replicate ?N fresh_RGB"]
  show "\<exists>p. m_pRGBPalleta (snd (snd (LoadColorPalleta w b))) = Some p \<and> length p = ?N"
    using B by simp
qed

theorem LoadColorPalleta_follows_colour_count_witness:
  "(signature (m_bmpHeader (loaded_object indexed_no_count)) = 19778 \<and>
    uint (nBIDHeaderSize (m_bmpHeader (loaded_object indexed_no_count))) < 2 ^ 31 - 14 \<and>
    nColorsInPalleta (m_bmpHeader (loaded_object indexed_no_count)) = 0 \<and>
    LoadColorPalleta (opened_world indexed_no_count 54) (loaded_object indexed_no_count) =
      (Inr True, opened_world indexed_no_count 54, loaded_object indexed_no_count)) \<and>
   (signature (m_bmpHeader (loaded_object one_colour)) = 19778 \<and>
    uint (nBIDHeaderSize (m_bmpHeader (loaded_object one_colour))) < 2 ^ 31 - 14 \<and>
    nColorsInPalleta (m_bmpHeader (loaded_object one_colour)) \<noteq> 0 \<and>
    fst (LoadColorPalleta (opened_world one_colour 54) (loaded_object one_colour)) = Inr True \<and>
    fd_lookup (fd_table (opened_world one_colour 54)) (m_nFD (loaded_object one_colour)) \<noteq> None \<and>
    4 * unat (nColorsInPalleta (m_bmpHeader (loaded_object one_colour)))
      \<le> heap_free (opened_world one_colour 54) + palette_bytes (loaded_object one_colour) \<and>
    trace (fst (snd (LoadColorPalleta (opened_world one_colour 54) (loaded_object one_colour)))) =
      [SysLseek 3 54, SysRead 3 4] \<and>
    (\<exists>p. m_pRGBPalleta (snd (snd (LoadColorPalleta (opened_world one_colour 54)
                                     (loaded_object one_colour)))) = Some p \<and> length p = 1))"
proof -
  have s0: "signature (m_bmpHeader (loaded_object indexed_no_count)) = 19778"
    and f0: "uint (nBIDHeaderSize (m_bmpHeader (loaded_object indexed_no_count))) < 2 ^ 31 - 14"
    and c0: "nColorsInPalleta (m_bmpHeader (loaded_object indexed_no_count)) = 0"
    by (simp_all add: run_defs indexed_no_count_def)
  have s1: "signature (m_bmpHeader (loaded_object one_colour)) = 19778"
    and f1: "uint (nBIDHeaderSize (m_bmpHeader (loaded_object one_colour))) < 2 ^ 31 - 14"
    and c1: "nColorsInPalleta (m_bmpHeader (loaded_object one_colour)) \<noteq> 0"
    and u1: "unat (nColorsInPalleta (m_bmpHeader (loaded_object one_colour))) = 1"
    and r1: "fst (LoadColorPalleta (opened_world one_colour 54) (loaded_object one_colour)) = Inr True"
    and o1: "fd_lookup (fd_table (opened_world one_colour 54)) (m_nFD (loaded_object one_colour))
               \<noteq> None"
    and m1: "4 * unat (nColorsInPalleta (m_bmpHeader (loaded_object one_colour)))
               \<le> heap_free (opened_world one_colour 54) + palette_bytes (loaded_object one_colour)"
    and e1: "trace (opened_world one_colour 54) = []"
      "m_nFD (loaded_object one_colour) = 3"
      "uint (nBIDHeaderSize (m_bmpHeader (loaded_object one_colour))) = 40"
    by (simp_all add: run_defs one_colour_def palette_bytes_def)
  note a = LoadColorPalleta_follows_colour_count [OF s0 f0, of "opened_world indexed_no_count 54"]
  note b = LoadColorPalleta_follows_colour_count [OF s1 f1, of "opened_world one_colour 54"]
  from a c0 have A: "LoadColorPalleta (opened_world indexed_no_count 54) (loaded_object indexed_no_count) =
      (Inr True, opened_world indexed_no_count 54, loaded_object indexed_no_count)" by blast
  from b c1 r1 have B1: "trace (fst (snd (LoadColorPalleta (opened_world one_colour 54) (loaded_object one_colour)))) =
      [SysLseek 3 54, SysRead 3 4]"
    by (auto simp: u1 e1)
  from b c1 o1 m1 have B2: "\<exists>p. m_pRGBPalleta (snd (snd (LoadColorPalleta (opened_world one_colour 54)
                                     (loaded_object one_colour)))) = Some p \<and> length p = 1"
    by (auto simp: u1)
  show ?thesis using s0 f0 c0 A s1 f1 c1 r1 o1 m1 B1 B2 by blast
qed

text \<open>
  The claim as stated: with 8 bits per pixel and \<open>colorsUsed = 0\<close> no palette is loaded
  (the claim asks for \<open>1 << 8\<close> entries), and with 24 bits per pixel and
  \<open>colorsUsed = 1\<close> a palette of one entry is loaded (the claim asks for none).
\<close>

theorem palette_rule_counterexample:
  "observe (Load (shell_world [(''a.bmp'', Regular indexed_no_count)]) BMP_new ''a.bmp'') =
     (Inr True,
      [SysOpen ''a.bmp'', SysRead 3 54, SysLseek 3 54, SysRead 3 1, SysClose 3],
      [Some 0, Some 0, Some 0, None], None, None) \<and>
   observe (Load (shell_world [(''a.bmp'', Regular truecolor_with_count)]) BMP_new ''a.bmp'') =
     (Inr True,
      [SysOpen ''a.bmp'', SysRead 3 54, SysLseek 3 54, SysRead 3 4,
       SysLseek 3 58, SysRead 3 3, SysRead 3 3, SysRead 3 3, SysClose 3],
      [Some 0, Some 0, Some 0, None], None,
      Some [\<lparr>nRed = Some 7, nGreen = Some 8, nBlue = Some 9, nAlpha = Some 0\<rparr>])"
  by (simp add: run_defs indexed_no_count_def truecolor_with_count_def)

text \<open>
  C7 (the code departs from the claim). The file's one palette entry is the bytes
  \<open>0x10, 0x20, 0x30, 0x00\<close>, that is blue \<open>0x10\<close>, green \<open>0x20\<close>, red \<open>0x30\<close> in the
  order of the format (the source's own note says that RGB values are stored as BGR).
  The raw 4-byte read puts them into \<open>nRed, nGreen, nBlue, nAlpha\<close> as they come: the
  stored red channel is the file's first byte \<open>0x10\<close> and the stored blue channel its
  third byte \<open>0x30\<close>. Nothing is reordered.
\<close>

theorem palette_entry_is_not_reordered:
  "observe (Load (shell_world [(''a.bmp'', Regular one_colour)]) BMP_new ''a.bmp'') =
     (Inr True,
      [SysOpen ''a.bmp'', SysRead 3 54, SysLseek 3 54, SysRead 3 4, SysLseek 3 58, SysRead 3 1,
       SysClose 3],
      [Some 0, Some 0, Some 0, None], None,
      Some [\<lparr>nRed = Some 0x10, nGreen = Some 0x20, nBlue = Some 0x30, nAlpha = Some 0\<rparr>])"
  by (simp add: run_defs one_colour_def)

subsection \<open>Load\<close>

lemma sys_open_trace:
  "sys_open w path = (fd, w1) \<Longrightarrow> trace w1 = trace w @ [SysOpen path]"
  by (auto simp: sys_open_def split: option.splits)

lemma LoadColorPalleta_keeps:
  assumes "LoadColorPalleta w b = (r, w', b')"
  shows "m_bmpHeader b' = m_bmpHeader b \<and> m_nFD b' = m_nFD b \<and> m_pRGBData b' = m_pRGBData b"
proof -
  let ?N = "unat (nColorsInPalleta (m_bmpHeader b))"
  let ?b0 = "b\<lparr>m_pRGBPalleta := Some (replicate ?N fresh_RGB)\<rparr>"
  obtain x w1 where sk:
    "sys_lseek w (m_nFD b) (sint (BMP_HEADERSIZE + nBIDHeaderSize (m_bmpHeader b))) = (x, w1)"
    by (rule prod.exhaust)
  obtain res w2 b2 where pl:
    "palleta_loop 0 (w1\<lparr>heap_free := heap_free w1 + palette_bytes b - 4 * ?N\<rparr>) ?b0
       = (res, w2, b2)"
    by (rule prod_cases3)
  from palleta_loop_keeps [OF pl]
  have "m_bmpHeader b2 = m_bmpHeader b \<and> m_nFD b2 = m_nFD b \<and> m_pRGBData b2 = m_pRGBData b"
    by simp
  then show ?thesis
    using assms sk pl
    by (cases res) (auto simp: LoadColorPalleta_def split: if_splits)
qed

lemma LoadRGBData_keeps:
  "LoadRGBData w b = (r, w', b') \<Longrightarrow> b' = b"
  by (auto simp: LoadRGBData_def split: if_splits sum.splits prod.splits option.splits)

text \<open>What Load has done once the header is in the object.\<close>

lemma Load_after_header:
  assumes ne: "f \<noteq> []"
    and op: "sys_open w f = (fd, w1)" and fd: "0 < fd"
    and rd: "sys_read w1 fd 54 = (n, got, w2)"
  shows "m_bmpHeader (snd (snd (Load w b f))) = header_of_bytes (store_bytes (replicate 54 0) got)
       \<and> m_nFD (snd (snd (Load w b f))) = fd
       \<and> m_pRGBData (snd (snd (Load w b f))) = m_pRGBData b"
    and "\<not> 0 \<le> n \<or> nHeight (header_of_bytes (store_bytes (replicate 54 0) got)) = 0
          \<or> signature (header_of_bytes (store_bytes (replicate 54 0) got)) \<noteq> 19778
          \<or> nCompressionMethod (header_of_bytes (store_bytes (replicate 54 0) got)) \<noteq> 0 \<Longrightarrow>
         Load w b f =
           (if 0 \<le> n \<and> nHeight (header_of_bytes (store_bytes (replicate 54 0) got)) = 0
            then Inl DivideByZero else Inr False,
            w2,
            b\<lparr>m_bmpHeader := header_of_bytes (store_bytes (replicate 54 0) got), m_nFD := fd\<rparr>)"
    and "0 \<le> n \<Longrightarrow> nHeight (header_of_bytes (store_bytes (replicate 54 0) got)) \<noteq> 0 \<Longrightarrow>
         signature (header_of_bytes (store_bytes (replicate 54 0) got)) = 19778 \<Longrightarrow>
         nCompressionMethod (header_of_bytes (store_bytes (replicate 54 0) got)) = 0 \<Longrightarrow>
         fst (Load w b f) \<noteq> Inr False"
proof -
  let ?h = "header_of_bytes (store_bytes (replicate 54 0) got)"
  let ?b1 = "b\<lparr>m_bmpHeader := ?h, m_nFD := fd\<rparr>"
  obtain r1 w3 b2 where cp: "LoadColorPalleta w2 ?b1 = (r1, w3, b2)" by (rule prod_cases3)
  obtain r2 w4 b3 where px: "LoadRGBData w3 b2 = (r2, w4, b3)" by (rule prod_cases3)
  from LoadColorPalleta_keeps [OF cp] LoadRGBData_keeps [OF px]
  have k: "m_bmpHeader b2 = ?h" "m_nFD b2 = fd" "m_pRGBData b2 = m_pRGBData b" "b3 = b2"
    by simp_all
  show "m_bmpHeader (snd (snd (Load w b f))) = ?h
       \<and> m_nFD (snd (snd (Load w b f))) = fd
       \<and> m_pRGBData (snd (snd (Load w b f))) = m_pRGBData b"
    using ne op fd rd cp px k
    by (cases r1; cases r2) (simp_all add: Load_def Let_def)
  show "Load w b f = (if 0 \<le> n \<and> nHeight ?h = 0 then Inl DivideByZero else Inr False, w2, ?b1)"
    if "\<not> 0 \<le> n \<or> nHeight ?h = 0 \<or> signature ?h \<noteq> 19778 \<or> nCompressionMethod ?h \<noteq> 0"
    using that ne op fd rd
    by (auto simp: Load_def Let_def BMP_SIGNATURE_def BMP_BI_RGB_def)
  show "fst (Load w b f) \<noteq> Inr False"
    if "0 \<le> n" "nHeight ?h \<noteq> 0" "signature ?h = 19778" "nCompressionMethod ?h = 0"
    using that ne op fd rd cp px
    by (cases r1; cases r2) (simp_all add: Load_def Let_def BMP_SIGNATURE_def BMP_BI_RGB_def)
qed

text \<open>
  C1 (amended). For every input, \<^verbatim>\<open>Load\<close> produces no pixel buffer, whatever it returns:
  the object's pixel pointer is the one it had before the call (null for a fresh
  object). When \<^verbatim>\<open>Load\<close> returns \<^verbatim>\<open>false\<close>, the palette pointer is untouched as well: a
  failed \<^verbatim>\<open>Load\<close> leaves no output at all.
\<close>

theorem Load_builds_no_buffer:
  "m_pRGBData (snd (snd (Load w b f))) = m_pRGBData b \<and>
   (fst (Load w b f) = Inr False \<longrightarrow>
      m_pRGBPalleta (snd (snd (Load w b f))) = m_pRGBPalleta b)"
proof (cases "f = []")
  case True
  then show ?thesis by (simp add: Load_def)
next
  case ne: False
  obtain fd w1 where op: "sys_open w f = (fd, w1)" by (rule prod.exhaust)
  show ?thesis
  proof (cases "0 < fd")
    case False
    then show ?thesis using ne op by (simp add: Load_def)
  next
    case fd: True
    obtain n got w2 where rd: "sys_read w1 fd 54 = (n, got, w2)" by (rule prod_cases3)
    let ?h = "header_of_bytes (store_bytes (replicate 54 0) got)"
    note L = Load_after_header [OF ne op fd rd, of b]
    show ?thesis
    proof (cases "0 \<le> n \<and> nHeight ?h \<noteq> 0 \<and> signature ?h = 19778 \<and> nCompressionMethod ?h = 0")
      case True
      then show ?thesis using L(1) L(3) by simp
    next
      case False
      then have "\<not> 0 \<le> n \<or> nHeight ?h = 0 \<or> signature ?h \<noteq> 19778 \<or> nCompressionMethod ?h \<noteq> 0"
        by blast
      from L(2) [OF this] show ?thesis by simp
    qed
  qed
qed


theorem Load_builds_no_buffer_witness:
  "fst (Load (shell_world [(''a.bmp'', Regular rle8_file)]) BMP_new ''a.bmp'') = Inr False \<and>
   m_pRGBData (snd (snd (Load (shell_world [(''a.bmp'', Regular rle8_file)]) BMP_new ''a.bmp''))) = None \<and>
   m_pRGBPalleta (snd (snd (Load (shell_world [(''a.bmp'', Regular rle8_file)]) BMP_new ''a.bmp''))) = None"
proof -
  have h: "fst (Load (shell_world [(''a.bmp'', Regular rle8_file)]) BMP_new ''a.bmp'') = Inr False"
    by (simp add: run_defs rle8_file_def)
  have n: "m_pRGBData BMP_new = None" "m_pRGBPalleta BMP_new = None"
    by (simp_all add: BMP_new_def)
  show ?thesis
    using h Load_builds_no_buffer [of "shell_world [(''a.bmp'', Regular rle8_file)]" BMP_new "''a.bmp''"]
    by (simp add: n)
qed


text \<open>
  The claim as stated: on the specification's 2 by 2 scenario \<^verbatim>\<open>Load\<close> returns \<^verbatim>\<open>true\<close>
  and the pixel pointer is null: it has succeeded without any pixel output.
\<close>

theorem scenario_yields_no_buffer_counterexample:
  "observe (Load (shell_world [(''a.bmp'', Regular scenario_2x2)]) BMP_new ''a.bmp'') =
     (Inr True,
      [SysOpen ''a.bmp'', SysRead 3 54,
       SysLseek 3 54, SysRead 3 3, SysRead 3 3, SysRead 3 3, SysRead 3 3, SysRead 3 3, SysRead 3 3,
       SysLseek 3 62, SysRead 3 3, SysRead 3 3, SysRead 3 3, SysRead 3 3, SysRead 3 3, SysRead 3 3,
       SysClose 3],
      [Some 0, Some 0, Some 0, None], None, None)"
  by (simp add: run_defs scenario_2x2_def)


text \<open>
  C3 (amended). The signature and the compression field are validated before any palette
  or pixel read: when the header that \<^verbatim>\<open>Load\<close> has stored has a signature other than
  19778 or a nonzero compression field, \<^verbatim>\<open>Load\<close> does not return \<^verbatim>\<open>true\<close> (its failure
  value is a bare \<^verbatim>\<open>false\<close>), it has made no seek and no read other than the 54-byte
  header read, and the palette pointer is untouched.
\<close>

theorem Load_rejects_before_data:
  assumes bad: "signature (m_bmpHeader (snd (snd (Load w b f)))) \<noteq> 19778 \<or>
                nCompressionMethod (m_bmpHeader (snd (snd (Load w b f)))) \<noteq> 0"
  shows "fst (Load w b f) \<noteq> Inr True \<and>
         (\<exists>evs. trace (fst (snd (Load w b f))) = trace w @ evs \<and> seeks evs = [] \<and>
                (reads evs = [] \<or> reads evs = [(m_nFD (snd (snd (Load w b f))), 54)])) \<and>
         m_pRGBPalleta (snd (snd (Load w b f))) = m_pRGBPalleta b"
proof (cases "f = []")
  case True
  then show ?thesis by (simp add: Load_def)
next
  case ne: False
  obtain fd w1 where op: "sys_open w f = (fd, w1)" by (rule prod.exhaust)
  have t1: "trace w1 = trace w @ [SysOpen f]" using op by (rule sys_open_trace)
  show ?thesis
  proof (cases "0 < fd")
    case False
    then show ?thesis using ne op t1 by (simp add: Load_def)
  next
    case fd: True
    obtain n got w2 where rd: "sys_read w1 fd 54 = (n, got, w2)" by (rule prod_cases3)
    have t2: "trace w2 = trace w @ [SysOpen f, SysRead fd 54]"
      using sys_read_trace [OF rd] t1 by simp
    let ?h = "header_of_bytes (store_bytes (replicate 54 0) got)"
    note L = Load_after_header [OF ne op fd rd, of b]
    from bad L(1) have "signature ?h \<noteq> 19778 \<or> nCompressionMethod ?h \<noteq> 0" by simp
    then have "\<not> 0 \<le> n \<or> nHeight ?h = 0 \<or> signature ?h \<noteq> 19778 \<or> nCompressionMethod ?h \<noteq> 0"
      by blast
    from L(2) [OF this] show ?thesis using t2 by simp
  qed
qed

theorem Load_rejects_before_data_witness:
  "signature (m_bmpHeader (snd (snd (Load (shell_world [(''a.bmp'', Regular bad_signature)])
                                       BMP_new ''a.bmp'')))) \<noteq> 19778 \<and>
   fst (Load (shell_world [(''a.bmp'', Regular bad_signature)]) BMP_new ''a.bmp'') \<noteq> Inr True \<and>
   seeks (trace (fst (snd (Load (shell_world [(''a.bmp'', Regular bad_signature)])
                                 BMP_new ''a.bmp'')))) = [] \<and>
   (reads (trace (fst (snd (Load (shell_world [(''a.bmp'', Regular bad_signature)])
                                  BMP_new ''a.bmp'')))) = [] \<or>
    reads (trace (fst (snd (Load (shell_world [(''a.bmp'', Regular bad_signature)])
                                  BMP_new ''a.bmp'')))) = [(3, 54)]) \<and>
   m_pRGBPalleta (snd (snd (Load (shell_world [(''a.bmp'', Regular bad_signature)])
                                  BMP_new ''a.bmp''))) = None"
proof -
  have s: "signature (m_bmpHeader (snd (snd (Load (shell_world [(''a.bmp'', Regular bad_signature)])
                                       BMP_new ''a.bmp'')))) \<noteq> 19778"
    and d: "m_nFD (snd (snd (Load (shell_world [(''a.bmp'', Regular bad_signature)])
                                       BMP_new ''a.bmp''))) = 3"
    by (simp_all add: run_defs bad_signature_def)
  have e: "trace (shell_world [(''a.bmp'', Regular bad_signature)]) = []"
    "m_pRGBPalleta BMP_new = None"
    by (simp_all add: shell_world_def BMP_new_def)
  from Load_rejects_before_data [OF disjI1 [OF s]]
  show ?thesis using s by (auto simp: d e)
qed

text \<open>
  The claim as stated: a file with the bit depth 32 is not rejected; \<^verbatim>\<open>Load\<close> returns
  \<^verbatim>\<open>true\<close> after seeking to the pixel data and reading from it.
\<close>

theorem unsupported_depth_is_decoded_counterexample:
  "observe (Load (shell_world [(''a.bmp'', Regular depth_32)]) BMP_new ''a.bmp'') =
     (Inr True,
      [SysOpen ''a.bmp'', SysRead 3 54,
       SysLseek 3 54, SysRead 3 4, SysRead 3 4, SysRead 3 4, SysRead 3 4,
       SysClose 3],
      [Some 0, Some 0, Some 0, None], None, None)"
  by (simp add: run_defs depth_32_def)

end
